theory Spec2Isabelle
  imports Complex_Main
begin

section \<open>Data model\<close>

text \<open>
  Embedding vectors are float arrays in the source; they are modelled as lists of exact
  reals, so rounding (the \<^verbatim>\<open>astype(np.float32)\<close> conversions) is not part of the model.
\<close>

type_synonym vec = "real list"

text \<open>A transcript segment of the provider: text, start offset, duration.\<close>

type_synonym segment = "string \<times> real \<times> real"

text \<open>
  One row of the data frames the pipeline passes around (\<^verbatim>\<open>videos.parquet\<close>,
  \<^verbatim>\<open>transcripts.parquet\<close>, \<^verbatim>\<open>embeddings.parquet\<close>). A cell that is \<^verbatim>\<open>None\<close> or NaN
  is \<open>None\<close>. The further cells of a video (channel, channel id, publication date,
  thumbnail, description, view count, duration, the raw transcript segments) are
  carried along by the operations below without being read, and are left out of the
  record.
\<close>

record row =
  video_id :: string
  title :: string
  transcript :: "string option"
  embedding :: "vec option"

text \<open>
  A data frame: its rows in positional order, and whether it has a \<^verbatim>\<open>transcript\<close>
  column at all (\<^verbatim>\<open>"transcript" in df.columns\<close>).
\<close>

record table =
  has_transcript_col :: bool
  rows :: "row list"

text \<open>
  A flat index of the vector library, of one of the two kinds this repository builds:
  \<^verbatim>\<open>faiss.IndexFlatIP\<close> (inner product) in \<^verbatim>\<open>VectorSearchService.build_index\<close> and in
  the indexing script for the cosine metric, \<^verbatim>\<open>faiss.IndexFlatL2\<close> (squared euclidean
  distance) in the indexing script for the euclidean metric. The index carries its
  metric type, its dimension and the stored vectors in insertion order; a vector's
  ordinal is its position. The index file holds all three, so \<^verbatim>\<open>faiss.read_index\<close>
  gives back the kind of index that was written.
\<close>

datatype faiss_metric = METRIC_INNER_PRODUCT | METRIC_L2

record faiss_index =
  idx_d :: nat
  metric_type :: faiss_metric
  vectors :: "vec list"

definition ntotal :: "faiss_index \<Rightarrow> nat" where
  "ntotal ix = length (vectors ix)"

definition IndexFlatIP :: "nat \<Rightarrow> faiss_index" where
  "IndexFlatIP dimension =
     \<lparr>idx_d = dimension, metric_type = METRIC_INNER_PRODUCT, vectors = []\<rparr>"

definition IndexFlatL2 :: "nat \<Rightarrow> faiss_index" where
  "IndexFlatL2 dimension = \<lparr>idx_d = dimension, metric_type = METRIC_L2, vectors = []\<rparr>"

definition add :: "faiss_index \<Rightarrow> vec list \<Rightarrow> faiss_index" where
  "add ix xs = ix\<lparr>vectors := vectors ix @ xs\<rparr>"

text \<open>
  The files under the four configured data paths (\<^verbatim>\<open>settings.videos_path\<close>,
  \<^verbatim>\<open>settings.transcripts_path\<close>, \<^verbatim>\<open>settings.index_path\<close>, \<^verbatim>\<open>settings.embeddings_path\<close>);
  \<open>None\<close> is a file that does not exist. The four paths are distinct, as in the
  default configuration.
\<close>

record fs =
  videos_file :: "table option"
  transcripts_file :: "table option"
  index_file :: "faiss_index option"
  embeddings_file :: "table option"

datatype error =
    FileNotFoundError string
  | ValueError string
  | KeyError string
  | IndexError
  | AssertionError

text \<open>
  The state of a \<^verbatim>\<open>VectorSearchService\<close> object. The embedding model itself is
  determined by \<open>model_name\<close>: \<^verbatim>\<open>SentenceTransformer(model_name)\<close> is a parameter
  \<open>ST\<close> of the operations below, mapping a model name and a text to a vector.
\<close>

record service =
  model_name :: string
  index :: "faiss_index option"
  metadata :: "table option"

type_synonym embedder = "string \<Rightarrow> string \<Rightarrow> vec"

section \<open>Vector arithmetic of the index library\<close>

definition sqnorm :: "vec \<Rightarrow> real" where
  "sqnorm v = sum_list (map (\<lambda>x. x * x) v)"

text \<open>\<^verbatim>\<open>faiss.normalize_L2\<close>: a row of norm zero is left as it is.\<close>

definition normalize_L2 :: "vec \<Rightarrow> vec" where
  "normalize_L2 v = (if 0 < sqnorm v then map (\<lambda>x. x / sqrt (sqnorm v)) v else v)"

definition inner :: "vec \<Rightarrow> vec \<Rightarrow> real" where
  "inner u v = sum_list (map2 (\<lambda>x y. x * y) u v)"

definition l2sqr :: "vec \<Rightarrow> vec \<Rightarrow> real" where
  "l2sqr u v = sum_list (map2 (\<lambda>x y. (x - y) * (x - y)) u v)"

text \<open>
  What a flat index reports as the distance of a stored vector from the query: the
  inner product, or the squared euclidean distance.
\<close>

definition distance_to :: "faiss_metric \<Rightarrow> vec \<Rightarrow> vec \<Rightarrow> real" where
  "distance_to m q v = (case m of METRIC_INNER_PRODUCT \<Rightarrow> inner q v | METRIC_L2 \<Rightarrow> l2sqr q v)"

text \<open>
  The order in which a flat index returns its hits: the largest inner product first, or
  the smallest squared distance first.
\<close>

definition rank_key :: "faiss_metric \<Rightarrow> real \<times> int \<Rightarrow> real" where
  "rank_key m h = (case m of METRIC_INNER_PRODUCT \<Rightarrow> - fst h | METRIC_L2 \<Rightarrow> fst h)"

text \<open>
  The distance the library reports in a slot it could not fill: the lowest float for an
  inner-product index, the highest for an L2 index.
\<close>

definition unfilled_dist :: "faiss_metric \<Rightarrow> real" where
  "unfilled_dist m =
     (case m of
        METRIC_INNER_PRODUCT \<Rightarrow> - 340282346638528859811704183484516925440
      | METRIC_L2 \<Rightarrow> 340282346638528859811704183484516925440)"

text \<open>
  \<^verbatim>\<open>index.search(query, k)\<close> on a flat index, for one query row: the library asserts
  \<open>k > 0\<close> and that the query has the index's dimension; it computes the distance of
  every stored vector, returns the \<open>k\<close> best (distance, ordinal) pairs, best first in
  the order of the index's metric, and fills the slots beyond the stored vectors with
  ordinal \<open>-1\<close>. Ties are ordered by ascending ordinal here; the library leaves their
  order open, and the example rankings below have no ties.
\<close>

definition ranked :: "faiss_index \<Rightarrow> vec \<Rightarrow> (real \<times> int) list" where
  "ranked ix q =
     sort_key (rank_key (metric_type ix))
       (zip (map (distance_to (metric_type ix) q) (vectors ix)) (map int [0..<ntotal ix]))"

definition faiss_search :: "faiss_index \<Rightarrow> vec \<Rightarrow> int \<Rightarrow> error + (real \<times> int) list" where
  "faiss_search ix q k =
     (if 0 < k \<and> length q = idx_d ix
      then (let top = take (nat k) (ranked ix q)
            in Inr (top @ replicate (nat k - length top) (unfilled_dist (metric_type ix), - 1)))
      else Inl AssertionError)"

section \<open>Persisting and loading a snapshot\<close>

text \<open>
  The writes of the source go straight to the final paths: \<^verbatim>\<open>faiss.write_index(index,
  index_path)\<close> and \<^verbatim>\<open>df.to_parquet(embeddings_path, index=False)\<close>. The index is
  written and read back whole, metric type included.
\<close>

datatype fs_op = WriteIndex faiss_index | ToParquet table

fun apply_op :: "fs_op \<Rightarrow> fs \<Rightarrow> fs" where
  "apply_op (WriteIndex ix) f = f\<lparr>index_file := Some ix\<rparr>"
| "apply_op (ToParquet df) f = f\<lparr>embeddings_file := Some df\<rparr>"

fun run_ops :: "fs_op list \<Rightarrow> fs \<Rightarrow> fs" where
  "run_ops [] f = f"
| "run_ops (op # ops) f = run_ops ops (apply_op op f)"

text \<open>
  The two writes at the end of \<^verbatim>\<open>build_index\<close>, in source order: the index file, then
  the metadata file.
\<close>

definition persist_ops :: "faiss_index \<Rightarrow> table \<Rightarrow> fs_op list" where
  "persist_ops ix df = [WriteIndex ix, ToParquet df]"

text \<open>A persist that is interrupted after \<open>k\<close> of its writes have completed.\<close>

definition interrupted_persist :: "nat \<Rightarrow> faiss_index \<Rightarrow> table \<Rightarrow> fs \<Rightarrow> fs" where
  "interrupted_persist k ix df f = run_ops (take k (persist_ops ix df)) f"

text \<open>
  \<^verbatim>\<open>load_index\<close>: the index is read and assigned to \<^verbatim>\<open>self.index\<close> before the metadata
  file is looked for, so a missing metadata file leaves the new index beside the old
  metadata. Both missing files raise \<^verbatim>\<open>FileNotFoundError\<close>, with different messages.
\<close>

definition load_index :: "service \<times> fs \<Rightarrow> (error + unit) \<times> service" where
  "load_index st =
     (let s = fst st; f = snd st in
      case index_file f of
        None \<Rightarrow> (Inl (FileNotFoundError ''Index not found''), s)
      | Some ix \<Rightarrow>
          (let s1 = s\<lparr>index := Some ix\<rparr> in
           case embeddings_file f of
             None \<Rightarrow> (Inl (FileNotFoundError ''Embeddings metadata not found''), s1)
           | Some md \<Rightarrow> (Inr (), s1\<lparr>metadata := Some md\<rparr>)))"

section \<open>Building the index\<close>

text \<open>
  \<^verbatim>\<open>VectorSearchService.build_index\<close>. \<^verbatim>\<open>model.encode(texts)\<close> embeds each text with the
  current model, in input order; \<^verbatim>\<open>batch_size\<close> does not change its result. The
  embeddings are normalised in place before they are added to the index and before
  they are stored in the \<^verbatim>\<open>embedding\<close> column.
\<close>

definition with_transcript :: "row \<Rightarrow> bool" where
  "with_transcript r = (case transcript r of None \<Rightarrow> False | Some t \<Rightarrow> t \<noteq> [])"

definition set_embedding :: "row \<Rightarrow> vec \<Rightarrow> row" where
  "set_embedding r e = r\<lparr>embedding := Some e\<rparr>"

definition select_model :: "string option \<Rightarrow> service \<Rightarrow> service" where
  "select_model mn s =
     (case mn of
        None \<Rightarrow> s
      | Some m \<Rightarrow> if m \<noteq> [] \<and> m \<noteq> model_name s then s\<lparr>model_name := m\<rparr> else s)"

definition build_index ::
  "embedder \<Rightarrow> string option \<Rightarrow> int option \<Rightarrow> bool \<Rightarrow> service \<times> fs
     \<Rightarrow> (error + nat \<times> nat) \<times> service \<times> fs" where
  "build_index ST mn batch_size force_rebuild st =
     (let s = fst st; f = snd st in
      if index_file f \<noteq> None \<and> \<not> force_rebuild then
        (case load_index (s, f) of
           (Inl e, s') \<Rightarrow> (Inl e, s', f)
         | (Inr u, s') \<Rightarrow>
             (Inr (length (rows (the (metadata s'))), ntotal (the (index s'))), s', f))
      else
        (let s1 = select_model mn s in
         case transcripts_file f of
           None \<Rightarrow> (Inl (FileNotFoundError ''Transcripts not found''), s1, f)
         | Some tf \<Rightarrow>
             if \<not> has_transcript_col tf then (Inl (KeyError ''transcript''), s1, f)
             else
               (let df = filter with_transcript (rows tf) in
                if length df = 0
                then (Inl (ValueError ''No videos with transcripts found''), s1, f)
                else
                  (let texts = map (\<lambda>r. the (transcript r)) df;
                       embeddings = map (ST (model_name s1)) texts;
                       dimension = length (hd embeddings);
                       normalized = map normalize_L2 embeddings;
                       ix = add (IndexFlatIP dimension) normalized;
                       df' = \<lparr>has_transcript_col = True,
                              rows = map2 set_embedding df normalized\<rparr>;
                       f' = run_ops (persist_ops ix df') f
                   in (Inr (length (rows df'), ntotal ix),
                       s1\<lparr>index := Some ix, metadata := Some df'\<rparr>, f')))))"

section \<open>Searching\<close>

text \<open>
  A result dictionary of \<^verbatim>\<open>search\<close>; the keys that copy the row's further descriptive
  cells are left out, as in \<open>row\<close>.
\<close>

record search_result =
  r_video_id :: string
  r_title :: string
  r_score :: real
  r_snippet :: "string option"
  r_start_time :: real

text \<open>
  \<^verbatim>\<open>metadata.iloc[idx]\<close>: positional, a negative position counts from the end, a
  position outside the frame raises \<^verbatim>\<open>IndexError\<close>.
\<close>

definition iloc :: "row list \<Rightarrow> int \<Rightarrow> error + row" where
  "iloc rs i =
     (let n = int (length rs); j = (if i < 0 then n + i else i)
      in if 0 \<le> j \<and> j < n then Inr (rs ! nat j) else Inl IndexError)"

definition snippet_of :: "row \<Rightarrow> string option" where
  "snippet_of r =
     (case transcript r of
        None \<Rightarrow> None
      | Some t \<Rightarrow> if t \<noteq> [] then Some (take 200 t @ ''...'') else None)"

definition make_result :: "row \<Rightarrow> real \<Rightarrow> search_result" where
  "make_result r score =
     \<lparr>r_video_id = video_id r, r_title = title r, r_score = score,
      r_snippet = snippet_of r, r_start_time = 0\<rparr>"

definition below_min :: "real option \<Rightarrow> real \<Rightarrow> bool" where
  "below_min min_score score = (case min_score of None \<Rightarrow> False | Some m \<Rightarrow> score < m)"

text \<open>
  The loop over \<^verbatim>\<open>zip(distances[0], indices[0])\<close>: a slot with ordinal \<open>-1\<close> is skipped,
  then a hit below \<^verbatim>\<open>min_score\<close> is skipped, then the metadata row is looked up by
  position. An exception in any iteration ends the whole search.
\<close>

fun build_results :: "real option \<Rightarrow> row list \<Rightarrow> (real \<times> int) list \<Rightarrow> error + search_result list" where
  "build_results min_score md [] = Inr []"
| "build_results min_score md ((distance, idx) # hits) =
     (if idx = - 1 then build_results min_score md hits
      else if below_min min_score distance then build_results min_score md hits
      else (case iloc md idx of
              Inl e \<Rightarrow> Inl e
            | Inr r \<Rightarrow>
                (case build_results min_score md hits of
                   Inl e \<Rightarrow> Inl e
                 | Inr results \<Rightarrow> Inr (make_result r distance # results))))"

text \<open>
  \<^verbatim>\<open>VectorSearchService.search\<close>. The \<^verbatim>\<open>metric\<close> argument is accepted and never read.
\<close>

definition search ::
  "embedder \<Rightarrow> string \<Rightarrow> int \<Rightarrow> string \<Rightarrow> real option \<Rightarrow> service
     \<Rightarrow> error + search_result list" where
  "search ST query top_k metric min_score s =
     (case index s of
        None \<Rightarrow> Inl (ValueError ''Index not loaded. Call load_index() first.'')
      | Some ix \<Rightarrow>
          (case metadata s of
             None \<Rightarrow> Inl (ValueError ''Index not loaded. Call load_index() first.'')
           | Some md \<Rightarrow>
               (let query_embedding = normalize_L2 (ST (model_name s) query) in
                case faiss_search ix query_embedding top_k of
                  Inl e \<Rightarrow> Inl e
                | Inr hits \<Rightarrow> build_results min_score (rows md) hits)))"

text \<open>
  The request and response schemas of the search endpoint (\<^verbatim>\<open>app/models.py\<close>):
  \<^verbatim>\<open>SearchRequest.validate_metric\<close> accepts exactly three metric names, and
  \<^verbatim>\<open>SearchResult.score\<close> is declared with \<^verbatim>\<open>ge=0, le=1\<close>.
\<close>

definition validate_metric :: "string \<Rightarrow> error + string" where
  "validate_metric v =
     (if v \<in> set [''cosine'', ''euclidean'', ''dot_product'']
      then Inr v else Inl (ValueError ''Metric must be one of the allowed metrics''))"

definition score_field_ok :: "real \<Rightarrow> bool" where
  "score_field_ok x = (0 \<le> x \<and> x \<le> 1)"

section \<open>Fetching transcripts\<close>

text \<open>
  One call of \<^verbatim>\<open>YouTubeTranscriptApi.get_transcript\<close> returns the segments, raises one
  of \<^verbatim>\<open>TranscriptsDisabled\<close>, \<^verbatim>\<open>NoTranscriptFound\<close>, \<^verbatim>\<open>VideoUnavailable\<close> (the transcript
  is permanently unavailable), or raises anything else (a transient upstream error
  among them). The provider is a parameter: its answer to a call may depend on the
  calls made before it, so an error can go away on a later attempt.
\<close>

datatype api_result = Transcript "segment list" | TranscriptUnavailable | OtherException

type_synonym transcript_api = "string list \<Rightarrow> string \<Rightarrow> api_result"

datatype log_entry = LogDebug string | LogError string

text \<open>
  What \<^verbatim>\<open>YouTubeService\<close> acts on: the data files, the provider calls made so far (the
  video id of each, in order), and the per-video log lines written by
  \<^verbatim>\<open>get_transcript\<close>.
\<close>

record world =
  files :: fs
  api_calls :: "string list"
  log :: "log_entry list"

definition get_transcript ::
  "transcript_api \<Rightarrow> string \<Rightarrow> string list \<times> log_entry list
     \<Rightarrow> segment list option \<times> string list \<times> log_entry list" where
  "get_transcript api vid w =
     (let calls = fst w; lg = snd w in
      case api calls vid of
        Transcript transcript_list \<Rightarrow> (Some transcript_list, calls @ [vid], lg)
      | TranscriptUnavailable \<Rightarrow> (None, calls @ [vid], lg @ [LogDebug vid])
      | OtherException \<Rightarrow> (None, calls @ [vid], lg @ [LogError vid]))"

text \<open>An entry of the \<^verbatim>\<open>transcripts\<close> list that \<^verbatim>\<open>fetch_transcripts\<close> collects.\<close>

record t_entry =
  t_video_id :: string
  t_transcript :: "string option"

fun join_space :: "string list \<Rightarrow> string" where
  "join_space [] = []"
| "join_space [x] = x"
| "join_space (x # y # ys) = x @ '' '' @ join_space (y # ys)"

text \<open>\<^verbatim>\<open>if transcript:\<close> holds for a list of segments that is not empty.\<close>

definition truthy :: "segment list option \<Rightarrow> bool" where
  "truthy t = (case t of None \<Rightarrow> False | Some segs \<Rightarrow> segs \<noteq> [])"

fun fetch_loop ::
  "transcript_api \<Rightarrow> row list
     \<Rightarrow> nat \<times> nat \<times> t_entry list \<times> string list \<times> log_entry list
     \<Rightarrow> nat \<times> nat \<times> t_entry list \<times> string list \<times> log_entry list" where
  "fetch_loop api [] acc = acc"
| "fetch_loop api (r # rest) (success_count, failed_count, transcripts, w) =
     (case get_transcript api (video_id r) w of
        (t, w') \<Rightarrow>
          if truthy t
          then fetch_loop api rest
                 (success_count + 1, failed_count,
                  transcripts @ [\<lparr>t_video_id = video_id r,
                                   t_transcript = Some (join_space (map fst (the t)))\<rparr>],
                  w')
          else fetch_loop api rest
                 (success_count, failed_count + 1,
                  transcripts @ [\<lparr>t_video_id = video_id r, t_transcript = None\<rparr>],
                  w'))"

text \<open>
  The rows a run works on: all rows of \<^verbatim>\<open>videos.parquet\<close>, restricted to
  \<^verbatim>\<open>video_ids\<close> when that list is given and not empty, and, unless \<^verbatim>\<open>force_refresh\<close>,
  restricted to the rows without a transcript when the frame has a \<^verbatim>\<open>transcript\<close>
  column.
\<close>

definition lacks_transcript :: "row \<Rightarrow> bool" where
  "lacks_transcript r = (transcript r = None \<or> transcript r = Some [])"

definition videos_to_fetch :: "table \<Rightarrow> string list option \<Rightarrow> bool \<Rightarrow> row list" where
  "videos_to_fetch vf video_ids force_refresh =
     (let df0 = rows vf;
          df1 = (case video_ids of
                   None \<Rightarrow> df0
                 | Some ids \<Rightarrow> if ids \<noteq> [] then filter (\<lambda>r. video_id r \<in> set ids) df0 else df0)
      in if \<not> force_refresh \<and> has_transcript_col vf then filter lacks_transcript df1 else df1)"

text \<open>
  \<^verbatim>\<open>df.merge(transcript_df, on="video_id", how="left")\<close> and the update of the
  \<^verbatim>\<open>transcript\<close> column: every row is paired with each entry of its video id; with an
  existing \<^verbatim>\<open>transcript\<close> column the new value wins and a missing new value falls
  back to the old one.
\<close>

definition merge_row :: "bool \<Rightarrow> row \<Rightarrow> t_entry \<Rightarrow> row" where
  "merge_row has_col r t =
     r\<lparr>transcript :=
         (if has_col
          then (case t_transcript t of Some x \<Rightarrow> Some x | None \<Rightarrow> transcript r)
          else t_transcript t)\<rparr>"

definition merge_transcripts :: "bool \<Rightarrow> row list \<Rightarrow> t_entry list \<Rightarrow> row list" where
  "merge_transcripts has_col df transcripts =
     concat (map (\<lambda>r. map (merge_row has_col r)
                         (filter (\<lambda>t. t_video_id t = video_id r) transcripts)) df)"

text \<open>
  \<^verbatim>\<open>YouTubeService.fetch_transcripts\<close>. It reads \<^verbatim>\<open>settings.videos_path\<close> and writes
  its result to \<^verbatim>\<open>settings.transcripts_path\<close>. With no row to work on, the frame built
  from the empty \<^verbatim>\<open>transcripts\<close> list has no \<^verbatim>\<open>video_id\<close> column and the merge
  raises \<^verbatim>\<open>KeyError\<close>.
\<close>

definition fetch_transcripts ::
  "transcript_api \<Rightarrow> string list option \<Rightarrow> bool \<Rightarrow> world \<Rightarrow> (error + nat \<times> nat) \<times> world" where
  "fetch_transcripts api video_ids force_refresh w =
     (case videos_file (files w) of
        None \<Rightarrow> (Inl (FileNotFoundError ''Videos file not found''), w)
      | Some vf \<Rightarrow>
          (let df = videos_to_fetch vf video_ids force_refresh;
               final = fetch_loop api df (0, 0, [], api_calls w, log w);
               success_count = fst final;
               failed_count = fst (snd final);
               transcripts = fst (snd (snd final));
               w1 = w\<lparr>api_calls := fst (snd (snd (snd final))),
                      log := snd (snd (snd (snd final)))\<rparr>
           in if transcripts = [] then (Inl (KeyError ''video_id''), w1)
              else
                (let result_df =
                       \<lparr>has_transcript_col = True,
                        rows = merge_transcripts (has_transcript_col vf) df transcripts\<rparr>
                 in (Inr (success_count, failed_count),
                     w1\<lparr>files := (files w1)\<lparr>transcripts_file := Some result_df\<rparr>\<rparr>))))"


section \<open>The indexing script\<close>

text \<open>
  \<^verbatim>\<open>scripts/embed_and_index.py\<close>, run with its default input and output paths, which
  are the transcripts, index and embeddings paths of the service. Its
  \<^verbatim>\<open>generate_embeddings\<close> asks the model for normalised embeddings, and its
  \<^verbatim>\<open>build_faiss_index\<close> chooses the kind of index from the \<^verbatim>\<open>--metric\<close> argument.
  \<open>main\<close> returns the exit status of the script and the files it leaves; the argument
  parser admits only the two metric names and exits with status 2 otherwise. The
  statistics and progress lines the script prints are left out.
\<close>

definition load_transcripts :: "fs \<Rightarrow> error + row list" where
  "load_transcripts f =
     (case transcripts_file f of
        None \<Rightarrow> Inl (FileNotFoundError ''Transcripts file not found'')
      | Some tf \<Rightarrow>
          if has_transcript_col tf then Inr (filter with_transcript (rows tf))
          else Inl (KeyError ''transcript''))"

definition generate_embeddings :: "embedder \<Rightarrow> string list \<Rightarrow> string \<Rightarrow> vec list" where
  "generate_embeddings ST texts model = map (\<lambda>t. normalize_L2 (ST model t)) texts"

definition build_faiss_index :: "vec list \<Rightarrow> string \<Rightarrow> error + faiss_index" where
  "build_faiss_index embeddings metric =
     (case embeddings of
        [] \<Rightarrow> Inl IndexError
      | e # _ \<Rightarrow>
          (let dimension = length e in
           if metric = ''cosine'' then Inr (add (IndexFlatIP dimension) embeddings)
           else if metric = ''euclidean'' then Inr (add (IndexFlatL2 dimension) embeddings)
           else Inl (ValueError ''Unsupported metric'')))"

definition save_index :: "faiss_index \<Rightarrow> fs \<Rightarrow> fs" where
  "save_index ix f = apply_op (WriteIndex ix) f"

definition save_embeddings :: "row list \<Rightarrow> vec list \<Rightarrow> fs \<Rightarrow> fs" where
  "save_embeddings df embeddings f =
     apply_op (ToParquet \<lparr>has_transcript_col = True,
                          rows = map2 set_embedding df embeddings\<rparr>) f"

definition main :: "embedder \<Rightarrow> string \<Rightarrow> string \<Rightarrow> bool \<Rightarrow> fs \<Rightarrow> int \<times> fs" where
  "main ST model metric force f =
     (if metric \<in> set [''cosine'', ''euclidean''] then
        (if index_file f \<noteq> None \<and> \<not> force then (0, f)
         else
           (case load_transcripts f of
              Inl e \<Rightarrow> (1, f)
            | Inr df \<Rightarrow>
                if length df = 0 then (1, f)
                else
                  (let texts = map (\<lambda>r. the (transcript r)) df;
                       embeddings = generate_embeddings ST texts model
                   in case build_faiss_index embeddings metric of
                        Inl e \<Rightarrow> (1, f)
                      | Inr ix \<Rightarrow> (0, save_embeddings df embeddings (save_index ix f)))))
      else (2, f))"

section \<open>The ranking in the specification's words\<close>

text \<open>
  A hit clears \<^verbatim>\<open>min_score\<close> when no threshold is given or its score is not below the
  threshold. The specification's order of work: of all stored vectors in rank order,
  those that do not clear \<^verbatim>\<open>min_score\<close> are excluded, and the rest is then truncated to
  \<^verbatim>\<open>top_k\<close>. A hit is turned into a result through the metadata row at its ordinal.
\<close>

definition hit_result :: "row list \<Rightarrow> real \<times> int \<Rightarrow> search_result" where
  "hit_result md h = make_result (md ! nat (snd h)) (fst h)"

definition clears :: "real option \<Rightarrow> real \<Rightarrow> bool" where
  "clears min_score score = (case min_score of None \<Rightarrow> True | Some m \<Rightarrow> m \<le> score)"

definition filter_then_truncate ::
  "real option \<Rightarrow> nat \<Rightarrow> (real \<times> int) list \<Rightarrow> (real \<times> int) list" where
  "filter_then_truncate min_score top_k hits =
     take top_k (filter (\<lambda>h. clears min_score (fst h)) hits)"

section \<open>Example inputs\<close>

definition video :: "string \<Rightarrow> string option \<Rightarrow> row" where
  "video vid t = \<lparr>video_id = vid, title = vid, transcript = t, embedding = None\<rparr>"

definition embedded :: "string \<Rightarrow> string \<Rightarrow> vec \<Rightarrow> row" where
  "embedded vid t e = \<lparr>video_id = vid, title = vid, transcript = Some t, embedding = Some e\<rparr>"

text \<open>An embedding model of dimension two.\<close>

definition example_ST :: embedder where
  "example_ST m t =
     (if t = ''west'' then [- 1, 0]
      else if t = ''northeast'' then [3 / 5, 4 / 5]
      else if t = ''north'' then [0, 2]
      else if t = ''southwest'' then [- (3 / 5), - (4 / 5)]
      else if t = ''eastnortheast'' then [12 / 13, 5 / 13]
      else [1, 0])"

definition example_service :: service where
  "example_service = \<lparr>model_name = ''all-MiniLM-L6-v2'', index = None, metadata = None\<rparr>"

text \<open>Eight collected videos, six of them with a transcript; nothing is indexed yet.\<close>

definition example_transcripts :: table where
  "example_transcripts =
     \<lparr>has_transcript_col = True,
      rows = [video ''v0'' (Some ''west''), video ''v1'' (Some ''east''),
              video ''u0'' None,
              video ''v2'' (Some ''northeast''), video ''v3'' (Some ''north''),
              video ''u1'' (Some []),
              video ''v4'' (Some ''eastnortheast''), video ''v5'' (Some ''southwest'')]\<rparr>"

definition example_fs :: fs where
  "example_fs = \<lparr>videos_file = None, transcripts_file = Some example_transcripts,
                  index_file = None, embeddings_file = None\<rparr>"

text \<open>The snapshot that \<open>build_index\<close> makes of them.\<close>

definition example_index :: faiss_index where
  "example_index =
     \<lparr>idx_d = 2, metric_type = METRIC_INNER_PRODUCT,
      vectors = [[- 1, 0], [1, 0], [3 / 5, 4 / 5], [0, 1], [12 / 13, 5 / 13],
                 [- (3 / 5), - (4 / 5)]]\<rparr>"

definition example_metadata :: table where
  "example_metadata =
     \<lparr>has_transcript_col = True,
      rows = [embedded ''v0'' ''west'' [- 1, 0], embedded ''v1'' ''east'' [1, 0],
              embedded ''v2'' ''northeast'' [3 / 5, 4 / 5], embedded ''v3'' ''north'' [0, 1],
              embedded ''v4'' ''eastnortheast'' [12 / 13, 5 / 13],
              embedded ''v5'' ''southwest'' [- (3 / 5), - (4 / 5)]]\<rparr>"

definition example_loaded :: service where
  "example_loaded =
     example_service\<lparr>index := Some example_index, metadata := Some example_metadata\<rparr>"

definition example_snapshot_fs :: fs where
  "example_snapshot_fs =
     example_fs\<lparr>index_file := Some example_index, embeddings_file := Some example_metadata\<rparr>"

text \<open>An older snapshot of a single video, on disk beside the same transcripts.\<close>

definition old_index :: faiss_index where
  "old_index = \<lparr>idx_d = 2, metric_type = METRIC_INNER_PRODUCT, vectors = [[0, 1]]\<rparr>"

definition old_metadata :: table where
  "old_metadata = \<lparr>has_transcript_col = True, rows = [embedded ''v3'' ''north'' [0, 1]]\<rparr>"

definition old_fs :: fs where
  "old_fs = \<lparr>videos_file = None, transcripts_file = Some example_transcripts,
              index_file = Some old_index, embeddings_file = Some old_metadata\<rparr>"

text \<open>
  The snapshot that the indexing script makes of the same transcripts when it is run
  with \<^verbatim>\<open>--metric euclidean\<close>: the same vectors in an L2 index, at the same paths; and
  the service state after loading it.
\<close>

definition l2_index :: faiss_index where
  "l2_index = example_index\<lparr>metric_type := METRIC_L2\<rparr>"

definition l2_fs :: fs where
  "l2_fs = example_fs\<lparr>index_file := Some l2_index, embeddings_file := Some example_metadata\<rparr>"

definition l2_loaded :: service where
  "l2_loaded = example_service\<lparr>index := Some l2_index, metadata := Some example_metadata\<rparr>"

text \<open>
  Two further loaded states: the six-vector index beside the one-row metadata of the
  older snapshot, and an index of dimension three (built with another model) beside
  its one row.
\<close>

definition misaligned_loaded :: service where
  "misaligned_loaded =
     example_service\<lparr>index := Some example_index, metadata := Some old_metadata\<rparr>"

definition wide_index :: faiss_index where
  "wide_index = \<lparr>idx_d = 3, metric_type = METRIC_INNER_PRODUCT, vectors = [[0, 1, 0]]\<rparr>"

definition wide_loaded :: service where
  "wide_loaded = example_service\<lparr>index := Some wide_index, metadata := Some old_metadata\<rparr>"

text \<open>
  Three collected videos as \<^verbatim>\<open>collect_videos\<close> writes them (no \<^verbatim>\<open>transcript\<close> column),
  and two providers: with \<open>gone_api\<close> video \<open>b\<close> is permanently unavailable; with
  \<open>flaky_api\<close> the first call for \<open>b\<close> fails with another exception and every later
  call succeeds.
\<close>

definition example_videos :: table where
  "example_videos =
     \<lparr>has_transcript_col = False,
      rows = [video ''a'' None, video ''b'' None, video ''c'' None]\<rparr>"

definition example_world :: world where
  "example_world =
     \<lparr>files = \<lparr>videos_file = Some example_videos, transcripts_file = None,
               index_file = None, embeddings_file = None\<rparr>,
      api_calls = [], log = []\<rparr>"

definition gone_api :: transcript_api where
  "gone_api calls vid =
     (if vid = ''b'' then TranscriptUnavailable
      else Transcript [(''hello'', 0, 1), (''world'', 1, 1)])"


text \<open>
  What the first run of \<open>fetch_transcripts\<close> with \<open>gone_api\<close> leaves behind: the
  transcripts file, the three provider calls and one log line.
\<close>

definition fetched_transcripts :: table where
  "fetched_transcripts =
     \<lparr>has_transcript_col = True,
      rows = [video ''a'' (Some ''hello world''), video ''b'' None,
              video ''c'' (Some ''hello world'')]\<rparr>"

definition fetched_world :: world where
  "fetched_world =
     \<lparr>files = \<lparr>videos_file = Some example_videos, transcripts_file = Some fetched_transcripts,
               index_file = None, embeddings_file = None\<rparr>,
      api_calls = [''a'', ''b'', ''c''], log = [LogDebug ''b'']\<rparr>"

section \<open>Facts about the examples\<close>

lemma example_normalize:
  "normalize_L2 [- 1, 0] = [- 1, 0]" "normalize_L2 [1, 0] = [1, 0]"
  "normalize_L2 [3 / 5, 4 / 5] = [3 / 5, 4 / 5]" "normalize_L2 [0, 2] = [0, 1]"
  "normalize_L2 [12 / 13, 5 / 13] = [12 / 13, 5 / 13]"
  "normalize_L2 [- (3 / 5), - (4 / 5)] = [- (3 / 5), - (4 / 5)]"
  by (simp_all add: normalize_L2_def sqnorm_def)

lemma example_build:
  "build_index example_ST None None force_rebuild (example_service, example_fs) =
     (Inr (6, 6), example_loaded, example_snapshot_fs)"
  by (simp add: build_index_def example_fs_def example_transcripts_def example_service_def
      video_def with_transcript_def select_model_def example_ST_def example_normalize
      add_def IndexFlatIP_def ntotal_def persist_ops_def set_embedding_def
      example_loaded_def example_index_def example_metadata_def embedded_def Let_def
      example_snapshot_fs_def)

lemma example_ranked:
  "ranked example_index [1, 0] =
     [(1, 1), (12 / 13, 4), (3 / 5, 2), (0, 3), (- (3 / 5), 5), (- 1, 0)]"
  by (simp add: ranked_def example_index_def ntotal_def inner_def distance_to_def rank_key_def
      upt_rec[of 0] upt_rec[of 1] upt_rec[of 2] upt_rec[of 3] upt_rec[of 4] upt_rec[of 5]
      upt_rec[of 6])

lemma l2_ranked:
  "ranked l2_index [1, 0] = [(0, 1), (2 / 13, 4), (4 / 5, 2), (2, 3), (16 / 5, 5), (4, 0)]"
  by (simp add: ranked_def l2_index_def example_index_def ntotal_def l2sqr_def distance_to_def
      rank_key_def upt_rec[of 0] upt_rec[of 1] upt_rec[of 2] upt_rec[of 3] upt_rec[of 4]
      upt_rec[of 5] upt_rec[of 6])

lemma l2_written_and_loaded:
  "main example_ST ''all-MiniLM-L6-v2'' ''euclidean'' False example_fs = (0, l2_fs)"
  "load_index (example_service, l2_fs) = (Inr (), l2_loaded)"
  by (simp_all add: main_def load_transcripts_def generate_embeddings_def build_faiss_index_def
      save_index_def save_embeddings_def example_fs_def example_transcripts_def
      video_def with_transcript_def example_ST_def example_normalize
      add_def IndexFlatL2_def set_embedding_def l2_fs_def l2_index_def l2_loaded_def
      example_index_def example_metadata_def embedded_def Let_def load_index_def)

lemma run_persist_ops:
  "run_ops (persist_ops ix df) f = f\<lparr>index_file := Some ix, embeddings_file := Some df\<rparr>"
  by (simp add: persist_ops_def)

section \<open>Facts about ranking, the result loop and a fresh build\<close>

lemma length_normalize_L2: "length (normalize_L2 v) = length v"
  by (simp add: normalize_L2_def)

lemma length_ranked: "length (ranked ix q) = ntotal ix"
  by (simp add: ranked_def ntotal_def)

lemma set_ranked:
  "h \<in> set (ranked ix q) \<Longrightarrow>
     \<exists>i < ntotal ix. h = (distance_to (metric_type ix) q (vectors ix ! i), int i)"
  by (auto simp: ranked_def ntotal_def set_zip)

lemma sorted_ranked:
  "metric_type ix = METRIC_INNER_PRODUCT \<Longrightarrow> sorted (map (\<lambda>h. - fst h) (ranked ix q))"
  using sorted_sort_key [of "\<lambda>h. - fst h"]
  by (simp add: ranked_def rank_key_def [abs_def])

lemma clears_iff: "clears ms x = (\<not> below_min ms x)"
  by (cases ms) (auto simp: clears_def below_min_def)

lemma filter_take_sorted:
  fixes xs :: "(real \<times> int) list"
  assumes "sorted (map (\<lambda>h. - fst h) xs)"
  shows "filter (\<lambda>h. \<not> below_min ms (fst h)) (take k xs) =
         take k (filter (\<lambda>h. \<not> below_min ms (fst h)) xs)"
  using assms
proof (induction xs arbitrary: k)
  case Nil
  then show ?case by simp
next
  case (Cons x xs)
  show ?case
  proof (cases k)
    case 0
    then show ?thesis by simp
  next
    case (Suc j)
    show ?thesis
    proof (cases "below_min ms (fst x)")
      case True
      have "\<forall>y \<in> set xs. below_min ms (fst y)"
        using Cons.prems True by (auto simp: below_min_def split: option.splits)
      then have "filter (\<lambda>h. \<not> below_min ms (fst h)) xs = []"
        by (simp add: filter_empty_conv)
      moreover have "filter (\<lambda>h. \<not> below_min ms (fst h)) (take j xs) = []"
        using \<open>\<forall>y \<in> set xs. below_min ms (fst y)\<close>
        by (auto simp: filter_empty_conv dest: in_set_takeD)
      ultimately show ?thesis using True Suc by simp
    next
      case False
      then show ?thesis using Cons Suc by simp
    qed
  qed
qed

lemma build_results_placeholders:
  "build_results ms md (hits @ replicate n (u, - 1)) = build_results ms md hits"
proof (induction hits)
  case Nil
  show ?case by (induction n) simp_all
next
  case (Cons h hits)
  then show ?case by (cases h) (simp split: sum.splits)
qed

lemma iloc_in_range: "i < length md \<Longrightarrow> iloc md (int i) = Inr (md ! i)"
  by (simp add: iloc_def)

lemma build_results_in_range:
  assumes "\<forall>h \<in> set hits. 0 \<le> snd h \<and> nat (snd h) < length md"
  shows "build_results ms md hits =
         Inr (map (\<lambda>h. make_result (md ! nat (snd h)) (fst h))
                  (filter (\<lambda>h. \<not> below_min ms (fst h)) hits))"
  using assms
proof (induction hits)
  case Nil
  then show ?case by simp
next
  case (Cons h hits)
  obtain d i where h: "h = (d, i)" by (cases h)
  from Cons.prems h have i: "0 \<le> i" "nat i < length md" by auto
  then have "iloc md i = Inr (md ! nat i)"
    using iloc_in_range [of "nat i" md] by simp
  moreover have "i \<noteq> - 1" using i by simp
  ultimately show ?case using Cons h by simp
qed


lemma length_filter_zip_fst:
  "length xs = length ys \<Longrightarrow>
     length (filter (\<lambda>h. P (fst h)) (zip xs ys)) = length (filter P xs)"
  by (induction xs ys rule: list_induct2) simp_all

lemma length_filter_ranked:
  "length (filter (\<lambda>h. P (fst h)) (ranked ix q)) =
     length (filter (\<lambda>v. P (distance_to (metric_type ix) q v)) (vectors ix))"
proof -
  have "filter (\<lambda>h. P (fst h)) (ranked ix q) =
        sort_key (rank_key (metric_type ix))
          (filter (\<lambda>h. P (fst h))
             (zip (map (distance_to (metric_type ix) q) (vectors ix)) (map int [0..<ntotal ix])))"
    by (simp add: ranked_def filter_sort)
  then show ?thesis
    by (simp add: length_filter_zip_fst ntotal_def filter_map comp_def)
qed

lemma search_loaded:
  assumes "index s = Some ix" "metadata s = Some md" "0 < top_k"
    and "length (ST (model_name s) query) = idx_d ix"
    and "ntotal ix \<le> length (rows md)"
  shows "search ST query top_k metric min_score s =
         Inr (map (hit_result (rows md))
               (filter (\<lambda>h. clears min_score (fst h))
                  (take (nat top_k) (ranked ix (normalize_L2 (ST (model_name s) query))))))"
proof -
  let ?q = "normalize_L2 (ST (model_name s) query)"
  have rng: "\<forall>h \<in> set (take (nat top_k) (ranked ix ?q)).
      0 \<le> snd h \<and> nat (snd h) < length (rows md)"
  proof
    fix h assume "h \<in> set (take (nat top_k) (ranked ix ?q))"
    then have "h \<in> set (ranked ix ?q)" by (rule in_set_takeD)
    then obtain i where "i < ntotal ix"
      "h = (distance_to (metric_type ix) ?q (vectors ix ! i), int i)"
      using set_ranked by blast
    then show "0 \<le> snd h \<and> nat (snd h) < length (rows md)"
      using assms(5) by simp
  qed
  have "search ST query top_k metric min_score s =
        build_results min_score (rows md) (take (nat top_k) (ranked ix ?q))"
    using assms(1-4)
    by (simp add: search_def faiss_search_def length_normalize_L2 Let_def
        build_results_placeholders)
  also have "\<dots> = Inr (map (\<lambda>h. make_result (rows md ! nat (snd h)) (fst h))
        (filter (\<lambda>h. \<not> below_min min_score (fst h)) (take (nat top_k) (ranked ix ?q))))"
    using rng by (rule build_results_in_range)
  finally show ?thesis
    by (simp add: clears_iff hit_result_def [abs_def])
qed

lemma map2_same: "map2 h xs (map g xs) = map (\<lambda>x. h x (g x)) xs"
  by (induction xs) simp_all

lemma build_index_fresh:
  assumes "build_index ST mn bs force_rebuild (s, f) = (Inr r, s', f')"
    and "force_rebuild \<or> index_file f = None"
  shows "\<exists>tf ix md. transcripts_file f = Some tf \<and> index s' = Some ix \<and> metadata s' = Some md \<and>
           metric_type ix = METRIC_INNER_PRODUCT \<and>
           idx_d ix = length (ST (model_name s')
                         (the (transcript (hd (filter with_transcript (rows tf)))))) \<and>
           vectors ix = map (\<lambda>r. normalize_L2 (ST (model_name s') (the (transcript r))))
                          (filter with_transcript (rows tf)) \<and>
           rows md = map (\<lambda>r. set_embedding r
                             (normalize_L2 (ST (model_name s') (the (transcript r)))))
                       (filter with_transcript (rows tf)) \<and>
           index_file f' = Some ix \<and> embeddings_file f' = Some md \<and>
           r = (length (filter with_transcript (rows tf)),
                length (filter with_transcript (rows tf)))"
proof -
  have nl: "\<not> (index_file f \<noteq> None \<and> \<not> force_rebuild)" using assms(2) by auto
  show ?thesis
    using assms(1) nl
    apply (simp only: build_index_def Let_def fst_conv snd_conv if_False)
    apply (simp split: option.splits if_splits add: run_persist_ops add_def IndexFlatIP_def
        ntotal_def map2_same hd_map)
    apply (auto simp: comp_def)
    done
qed

lemma sorted_wrt_ranked:
  assumes "metric_type ix = METRIC_INNER_PRODUCT"
  shows "sorted_wrt (\<lambda>a b. fst b \<le> fst a) (ranked ix q)"
proof -
  have "sorted_wrt (\<lambda>a b. - fst a \<le> - fst b) (ranked ix q)"
    using sorted_ranked [OF assms, of q] by (simp add: sorted_map)
  then show ?thesis by simp
qed

lemma clears_None: "clears None x"
  by (simp add: clears_def)

lemma r_score_hit: "r_score (hit_result md h) = fst h"
  by (simp add: hit_result_def make_result_def)

lemma search_loaded':
  assumes "index s = Some ix" "metadata s = Some md" "0 < top_k"
    and "length (ST (model_name s) query) = idx_d ix"
    and "ntotal ix \<le> length (rows md)"
    and "metric_type ix = METRIC_INNER_PRODUCT"
  shows "search ST query top_k metric min_score s =
         Inr (map (hit_result (rows md))
               (filter_then_truncate min_score (nat top_k)
                  (ranked ix (normalize_L2 (ST (model_name s) query)))))"
  using assms(1-5) search_loaded [where ST = ST and s = s and ix = ix and md = md
      and top_k = top_k and query = query and metric = metric and min_score = min_score]
    filter_take_sorted [OF sorted_ranked [OF assms(6)], of min_score "nat top_k"
      "normalize_L2 (ST (model_name s) query)"]
  by (simp add: filter_then_truncate_def clears_iff)

lemma example_hyps:
  "index example_loaded = Some example_index"
  "metadata example_loaded = Some example_metadata"
  "length (example_ST (model_name example_loaded) ''east'') = idx_d example_index"
  "ntotal example_index \<le> length (rows example_metadata)"
  "normalize_L2 (example_ST (model_name example_loaded) ''east'') = [1, 0]"
  "metric_type example_index = METRIC_INNER_PRODUCT"
  by (simp_all add: example_loaded_def example_service_def example_ST_def example_index_def
      ntotal_def example_metadata_def example_normalize)

lemma example_rows:
  "rows example_metadata ! 0 = embedded ''v0'' ''west'' [- 1, 0]"
  "rows example_metadata ! Suc 0 = embedded ''v1'' ''east'' [1, 0]"
  "rows example_metadata ! 2 = embedded ''v2'' ''northeast'' [3 / 5, 4 / 5]"
  "rows example_metadata ! 3 = embedded ''v3'' ''north'' [0, 1]"
  "rows example_metadata ! 4 = embedded ''v4'' ''eastnortheast'' [12 / 13, 5 / 13]"
  "rows example_metadata ! 5 = embedded ''v5'' ''southwest'' [- (3 / 5), - (4 / 5)]"
  by (simp_all add: example_metadata_def)

lemma l2_hyps:
  "index l2_loaded = Some l2_index"
  "metadata l2_loaded = Some example_metadata"
  "length (example_ST (model_name l2_loaded) ''east'') = idx_d l2_index"
  "ntotal l2_index \<le> length (rows example_metadata)"
  "normalize_L2 (example_ST (model_name l2_loaded) ''east'') = [1, 0]"
  "metric_type l2_index = METRIC_L2"
  by (simp_all add: l2_loaded_def l2_index_def example_service_def example_ST_def
      example_index_def ntotal_def example_metadata_def example_normalize)

lemma search_hits_in_range:
  assumes "index s = Some ix" and "metadata s = Some md"
    and "ntotal ix \<le> length (rows md)"
    and "search ST query top_k metric min_score s = Inr rs" and "r \<in> set rs"
  shows "\<exists>i < ntotal ix. r = make_result (rows md ! i)
           (distance_to (metric_type ix) (normalize_L2 (ST (model_name s) query)) (vectors ix ! i))"
proof -
  let ?q = "normalize_L2 (ST (model_name s) query)"
  have ok: "0 < top_k \<and> length (ST (model_name s) query) = idx_d ix"
    using assms(1,2,4)
    by (simp add: search_def faiss_search_def length_normalize_L2 split: if_splits)
  then have "rs = map (hit_result (rows md))
      (filter (\<lambda>h. clears min_score (fst h)) (take (nat top_k) (ranked ix ?q)))"
    using assms(1-4) search_loaded [where ST = ST and s = s and ix = ix and md = md
        and top_k = top_k and query = query and metric = metric and min_score = min_score]
    by simp
  with assms(5) obtain h
    where h: "h \<in> set (filter (\<lambda>h. clears min_score (fst h)) (take (nat top_k) (ranked ix ?q)))"
      and rh: "r = hit_result (rows md) h"
    by auto
  from h have "h \<in> set (take (nat top_k) (ranked ix ?q))" by simp
  then have "h \<in> set (ranked ix ?q)" by (rule in_set_takeD)
  with rh have "h \<in> set (ranked ix ?q)" "r = hit_result (rows md) h" by simp_all
  moreover then obtain i where "i < ntotal ix"
    "h = (distance_to (metric_type ix) ?q (vectors ix ! i), int i)"
    using set_ranked by blast
  ultimately show ?thesis by (auto simp: hit_result_def)
qed

lemma with_transcript_Some: "with_transcript r \<Longrightarrow> \<exists>t. transcript r = Some t"
  by (cases "transcript r") (simp_all add: with_transcript_def)




lemma example_fetch:
  "fetch_transcripts gone_api None False example_world = (Inr (2, 1), fetched_world)"
  by (simp add: fetch_transcripts_def example_world_def example_videos_def videos_to_fetch_def
      video_def get_transcript_def gone_api_def truthy_def merge_transcripts_def merge_row_def
      fetched_world_def fetched_transcripts_def Let_def)

lemma example_refetch:
  "fetch_transcripts gone_api None False fetched_world =
     (Inr (2, 1),
      fetched_world\<lparr>api_calls := [''a'', ''b'', ''c'', ''a'', ''b'', ''c''],
                     log := [LogDebug ''b'', LogDebug ''b'']\<rparr>)"
  by (simp add: fetch_transcripts_def example_videos_def videos_to_fetch_def
      video_def get_transcript_def gone_api_def truthy_def merge_transcripts_def merge_row_def
      fetched_world_def fetched_transcripts_def Let_def)

lemma example_rebuild:
  "build_index example_ST None None True (example_service, old_fs) =
     (Inr (6, 6), example_loaded,
      old_fs\<lparr>index_file := Some example_index, embeddings_file := Some example_metadata\<rparr>)"
  by (simp add: build_index_def old_fs_def example_transcripts_def example_service_def
      video_def with_transcript_def select_model_def example_ST_def example_normalize
      add_def IndexFlatIP_def ntotal_def persist_ops_def set_embedding_def
      example_loaded_def example_index_def example_metadata_def embedded_def Let_def)

section \<open>Ordinal alignment\<close>

text \<open>
  C1: whenever \<open>build_index\<close> really builds (\<^verbatim>\<open>force_rebuild\<close> is set or no index file
  exists) and succeeds, the new index and the new metadata are what is loaded and what
  is on disk, they have the same number of entries (the two counts returned), the
  metadata rows are the rows of the transcripts file that have a transcript, in file
  order, and for every ordinal \<open>i\<close> below the vector count the vector at position \<open>i\<close>
  is the normalised embedding of the transcript in metadata row \<open>i\<close>. Every result of
  every later search on that state carries the video id of a metadata row \<open>i\<close> and the
  score of the query against the embedding of that row's transcript.
\<close>

theorem build_index_ordinal_alignment:
  assumes "build_index ST mn bs force_rebuild (s, f) = (Inr (n_rows, n_vecs), s', f')"
    and "force_rebuild \<or> index_file f = None"
  shows "\<exists>tf ix md.
           transcripts_file f = Some tf \<and> index s' = Some ix \<and> metadata s' = Some md \<and>
           index_file f' = Some ix \<and> embeddings_file f' = Some md \<and>
           n_rows = length (rows md) \<and> n_vecs = ntotal ix \<and> ntotal ix = length (rows md) \<and>
           map video_id (rows md) = map video_id (filter with_transcript (rows tf)) \<and>
           (\<forall>i < ntotal ix. \<exists>t. transcript (rows md ! i) = Some t \<and>
                vectors ix ! i = normalize_L2 (ST (model_name s') t) \<and>
                embedding (rows md ! i) = Some (vectors ix ! i)) \<and>
           (\<forall>query top_k metric min_score rs.
              search ST query top_k metric min_score s' = Inr rs \<longrightarrow>
              (\<forall>r \<in> set rs. \<exists>i < ntotal ix. \<exists>t.
                   transcript (rows md ! i) = Some t \<and>
                   r_video_id r = video_id (rows md ! i) \<and>
                   r_score r = inner (normalize_L2 (ST (model_name s') query))
                                     (normalize_L2 (ST (model_name s') t))))"
proof -
  from build_index_fresh [OF assms] obtain tf ix md where
    tf: "transcripts_file f = Some tf" and ix: "index s' = Some ix" and md: "metadata s' = Some md"
    and vs: "vectors ix = map (\<lambda>r. normalize_L2 (ST (model_name s') (the (transcript r))))
                          (filter with_transcript (rows tf))"
    and rs: "rows md = map (\<lambda>r. set_embedding r
                             (normalize_L2 (ST (model_name s') (the (transcript r)))))
                       (filter with_transcript (rows tf))"
    and fi: "index_file f' = Some ix" and fe: "embeddings_file f' = Some md"
    and mt: "metric_type ix = METRIC_INNER_PRODUCT"
    and cnt: "(n_rows, n_vecs) = (length (filter with_transcript (rows tf)),
                length (filter with_transcript (rows tf)))"
    by blast
  let ?df = "filter with_transcript (rows tf)"
  have n: "ntotal ix = length ?df" "length (rows md) = length ?df"
    by (simp_all add: ntotal_def vs rs)
  have ids: "map video_id (rows md) = map video_id ?df"
    by (simp add: rs set_embedding_def comp_def)
  have al: "\<forall>i < ntotal ix. \<exists>t. transcript (rows md ! i) = Some t \<and>
                vectors ix ! i = normalize_L2 (ST (model_name s') t) \<and>
                embedding (rows md ! i) = Some (vectors ix ! i)"
  proof (intro allI impI)
    fix i assume i: "i < ntotal ix"
    then have "i < length ?df" using n by simp
    then have "?df ! i \<in> set ?df" by (rule nth_mem)
    moreover have "\<forall>x \<in> set ?df. with_transcript x" by simp
    ultimately have "with_transcript (?df ! i)" by blast
    then obtain t where "transcript (?df ! i) = Some t" using with_transcript_Some by blast
    then show "\<exists>t. transcript (rows md ! i) = Some t \<and>
                vectors ix ! i = normalize_L2 (ST (model_name s') t) \<and>
                embedding (rows md ! i) = Some (vectors ix ! i)"
      using i n by (simp add: vs rs set_embedding_def)
  qed
  have se: "\<forall>query top_k metric min_score rs.
              search ST query top_k metric min_score s' = Inr rs \<longrightarrow>
              (\<forall>r \<in> set rs. \<exists>i < ntotal ix. \<exists>t.
                   transcript (rows md ! i) = Some t \<and>
                   r_video_id r = video_id (rows md ! i) \<and>
                   r_score r = inner (normalize_L2 (ST (model_name s') query))
                                     (normalize_L2 (ST (model_name s') t)))"
  proof (intro allI impI ballI)
    fix query top_k metric min_score rs r
    assume "search ST query top_k metric min_score s' = Inr rs" and "r \<in> set rs"
    then obtain i where i: "i < ntotal ix"
      and r: "r = make_result (rows md ! i)
           (inner (normalize_L2 (ST (model_name s') query)) (vectors ix ! i))"
      using search_hits_in_range [where ST = ST and s = s' and ix = ix and md = md
          and query = query and top_k = top_k and metric = metric and min_score = min_score
          and rs = rs and r = r] ix md n mt
      by (auto simp: distance_to_def)
    from al i obtain t where "transcript (rows md ! i) = Some t"
      "vectors ix ! i = normalize_L2 (ST (model_name s') t)" by blast
    then show "\<exists>i < ntotal ix. \<exists>t.
                   transcript (rows md ! i) = Some t \<and>
                   r_video_id r = video_id (rows md ! i) \<and>
                   r_score r = inner (normalize_L2 (ST (model_name s') query))
                                     (normalize_L2 (ST (model_name s') t))"
      using i r by (auto simp: make_result_def)
  qed
  from tf ix md fi fe cnt n ids al se show ?thesis by auto
qed

theorem build_index_ordinal_alignment_witness:
  "build_index example_ST None None True (example_service, example_fs) =
     (Inr (6, 6), example_loaded, example_snapshot_fs) \<and>
   (\<exists>ix md. index example_loaded = Some ix \<and> metadata example_loaded = Some md \<and>
            ntotal ix = length (rows md) \<and>
            map video_id (rows md) = [''v0'', ''v1'', ''v2'', ''v3'', ''v4'', ''v5''])"
proof -
  have b: "build_index example_ST None None True (example_service, example_fs) =
     (Inr (6, 6), example_loaded, example_snapshot_fs)"
    by (rule example_build)
  have "True \<or> index_file example_fs = None" by simp
  from build_index_ordinal_alignment [OF b this]
  obtain tf ix md where "transcripts_file example_fs = Some tf"
    and "index example_loaded = Some ix" and "metadata example_loaded = Some md"
    and "ntotal ix = length (rows md)"
    and "map video_id (rows md) = map video_id (filter with_transcript (rows tf))"
    by blast
  then show ?thesis
    using b
    by (auto simp: example_fs_def example_transcripts_def video_def with_transcript_def)
qed

section \<open>Thresholding and truncation\<close>

text \<open>
  C2, as stated for every loaded index, fails. The indexing script, run with the
  euclidean metric, writes an L2 index to the path the service loads; on that loaded
  index the hits come nearest first with the squared distance as score, the loop
  filters after the library has truncated, and so with \<^verbatim>\<open>top_k = 2\<close> and
  \<^verbatim>\<open>min_score = 0.9\<close> nothing is returned although three stored vectors clear 0.9, and
  with \<^verbatim>\<open>top_k = 5\<close> two of those three are returned, in ascending order of score.
  And a load accepts six vectors beside one metadata row, or an index of another
  dimension than the model's; on those states, and for \<^verbatim>\<open>top_k = 0\<close>, the search
  raises.
\<close>

theorem search_threshold_fails_on_loaded_states:
  "main example_ST ''all-MiniLM-L6-v2'' ''euclidean'' False example_fs = (0, l2_fs) \<and>
   load_index (example_service, l2_fs) = (Inr (), l2_loaded) \<and>
   length (filter (\<lambda>v. clears (Some (9 / 10)) (distance_to METRIC_L2 [1, 0] v))
             (vectors l2_index)) = 3 \<and>
   search example_ST ''east'' 2 ''cosine'' (Some (9 / 10)) l2_loaded = Inr [] \<and>
   search example_ST ''east'' 5 ''cosine'' (Some (9 / 10)) l2_loaded =
     Inr [make_result (embedded ''v3'' ''north'' [0, 1]) 2,
          make_result (embedded ''v5'' ''southwest'' [- (3 / 5), - (4 / 5)]) (16 / 5)] \<and>
   load_index (example_service, old_fs\<lparr>index_file := Some example_index\<rparr>) =
     (Inr (), misaligned_loaded) \<and>
   search example_ST ''east'' 5 ''cosine'' (Some (9 / 10)) misaligned_loaded = Inl IndexError \<and>
   search example_ST ''east'' 5 ''cosine'' (Some (9 / 10)) wide_loaded = Inl AssertionError \<and>
   search example_ST ''east'' 0 ''cosine'' (Some (9 / 10)) example_loaded = Inl AssertionError"
proof -
  have a: "length (filter (\<lambda>v. clears (Some (9 / 10)) (distance_to METRIC_L2 [1, 0] v))
             (vectors l2_index)) = 3"
    by (simp add: l2_index_def example_index_def clears_def distance_to_def l2sqr_def)
  have b: "search example_ST ''east'' 2 ''cosine'' (Some (9 / 10)) l2_loaded = Inr []"
    using search_loaded [where ST = example_ST and s = l2_loaded and ix = l2_index
        and md = example_metadata and top_k = 2 and query = "''east''"
        and metric = "''cosine''" and min_score = "Some (9 / 10)"]
    by (simp add: l2_hyps l2_ranked clears_def)
  have c: "search example_ST ''east'' 5 ''cosine'' (Some (9 / 10)) l2_loaded =
     Inr [make_result (embedded ''v3'' ''north'' [0, 1]) 2,
          make_result (embedded ''v5'' ''southwest'' [- (3 / 5), - (4 / 5)]) (16 / 5)]"
    using search_loaded [where ST = example_ST and s = l2_loaded and ix = l2_index
        and md = example_metadata and top_k = 5 and query = "''east''"
        and metric = "''cosine''" and min_score = "Some (9 / 10)"]
    by (simp add: l2_hyps l2_ranked clears_def hit_result_def example_rows)
  have d: "load_index (example_service, old_fs\<lparr>index_file := Some example_index\<rparr>) =
     (Inr (), misaligned_loaded)"
    by (simp add: load_index_def old_fs_def misaligned_loaded_def)
  have q: "normalize_L2 (example_ST ''all-MiniLM-L6-v2'' ''east'') = [1, 0]"
    by (simp add: example_ST_def example_normalize)
  have e: "search example_ST ''east'' 5 ''cosine'' (Some (9 / 10)) misaligned_loaded =
      Inl IndexError"
    by (simp add: search_def misaligned_loaded_def example_service_def q faiss_search_def
        example_ranked below_min_def iloc_def old_metadata_def Let_def)
      (simp add: example_index_def)
  have f: "search example_ST ''east'' 5 ''cosine'' (Some (9 / 10)) wide_loaded =
      Inl AssertionError"
    by (simp add: search_def wide_loaded_def example_service_def q faiss_search_def
        wide_index_def)
  have g: "search example_ST ''east'' 0 ''cosine'' (Some (9 / 10)) example_loaded =
      Inl AssertionError"
    by (simp add: search_def example_loaded_def example_service_def faiss_search_def)
  from a b c d e f g l2_written_and_loaded show ?thesis by simp
qed

text \<open>
  C2 (as the code has it): on a loaded inner-product index (the kind \<open>build_index\<close>
  builds) that has a metadata row for every vector, with \<^verbatim>\<open>top_k\<close> at least 1 and a
  query of the index's dimension, \<open>search\<close> returns the results of the stored vectors
  that clear \<^verbatim>\<open>min_score\<close>, excluded before the truncation to \<^verbatim>\<open>top_k\<close>: their number
  is the smaller of \<^verbatim>\<open>top_k\<close> and the number of stored vectors that clear
  \<^verbatim>\<open>min_score\<close>, they are in descending order of score, each clears \<^verbatim>\<open>min_score\<close>,
  and they are the results of the same search without \<^verbatim>\<open>min_score\<close> that clear it, in
  the same relative order.
\<close>

theorem search_min_score_before_truncation:
  assumes "index s = Some ix" and "metadata s = Some md" and "0 < top_k"
    and "length (ST (model_name s) query) = idx_d ix"
    and "ntotal ix \<le> length (rows md)"
    and "q = normalize_L2 (ST (model_name s) query)"
    and "metric_type ix = METRIC_INNER_PRODUCT"
  shows "\<exists>rs unfiltered.
           search ST query top_k metric min_score s = Inr rs \<and>
           rs = map (hit_result (rows md)) (filter_then_truncate min_score (nat top_k) (ranked ix q)) \<and>
           length rs = min (nat top_k)
                         (length (filter (\<lambda>v. clears min_score (inner q v)) (vectors ix))) \<and>
           sorted_wrt (\<lambda>a b. r_score b \<le> r_score a) rs \<and>
           (\<forall>r \<in> set rs. clears min_score (r_score r)) \<and>
           search ST query top_k metric None s = Inr unfiltered \<and>
           rs = filter (\<lambda>r. clears min_score (r_score r)) unfiltered"
proof -
  let ?P = "\<lambda>h :: real \<times> int. clears min_score (fst h)"
  let ?rs = "map (hit_result (rows md)) (filter_then_truncate min_score (nat top_k) (ranked ix q))"
  let ?un = "map (hit_result (rows md)) (filter_then_truncate None (nat top_k) (ranked ix q))"
  have s1: "search ST query top_k metric min_score s = Inr ?rs"
    using assms search_loaded' [where ST = ST and s = s and ix = ix and md = md
        and top_k = top_k and query = query and metric = metric and min_score = min_score]
    by simp
  have s2: "search ST query top_k metric None s = Inr ?un"
    using assms search_loaded' [where ST = ST and s = s and ix = ix and md = md
        and top_k = top_k and query = query and metric = metric and min_score = None]
    by simp
  have len: "length ?rs = min (nat top_k)
      (length (filter (\<lambda>v. clears min_score (inner q v)) (vectors ix)))"
    using length_filter_ranked [of "clears min_score" ix q] assms(7)
    by (simp add: filter_then_truncate_def min.commute distance_to_def)
  have "sorted_wrt (\<lambda>a b. fst b \<le> fst a) (filter_then_truncate min_score (nat top_k) (ranked ix q))"
    unfolding filter_then_truncate_def
    by (intro sorted_wrt_take sorted_wrt_filter sorted_wrt_ranked assms(7))
  then have srt: "sorted_wrt (\<lambda>a b. r_score b \<le> r_score a) ?rs"
    by (simp add: sorted_wrt_map r_score_hit)
  have clr: "\<forall>r \<in> set ?rs. clears min_score (r_score r)"
    by (auto simp: filter_then_truncate_def r_score_hit dest: in_set_takeD)
  have "filter ?P (take (nat top_k) (ranked ix q)) = take (nat top_k) (filter ?P (ranked ix q))"
    using filter_take_sorted [OF sorted_ranked [OF assms(7)], of min_score "nat top_k" q]
    by (simp add: clears_iff)
  then have sub: "?rs = filter (\<lambda>r. clears min_score (r_score r)) ?un"
    by (simp add: filter_then_truncate_def filter_map comp_def r_score_hit clears_None)
  from s1 s2 len srt clr sub show ?thesis by blast
qed

theorem search_min_score_before_truncation_witness:
  "index example_loaded = Some example_index \<and>
   metadata example_loaded = Some example_metadata \<and>
   (0 :: int) < 5 \<and>
   length (example_ST (model_name example_loaded) ''east'') = idx_d example_index \<and>
   ntotal example_index \<le> length (rows example_metadata) \<and>
   metric_type example_index = METRIC_INNER_PRODUCT \<and>
   search example_ST ''east'' 5 ''cosine'' (Some (9 / 10)) example_loaded =
     Inr [make_result (embedded ''v1'' ''east'' [1, 0]) 1,
          make_result (embedded ''v4'' ''eastnortheast'' [12 / 13, 5 / 13]) (12 / 13)]"
proof -
  obtain rs where "search example_ST ''east'' 5 ''cosine'' (Some (9 / 10)) example_loaded = Inr rs"
    and "rs = map (hit_result (rows example_metadata))
               (filter_then_truncate (Some (9 / 10)) (nat 5) (ranked example_index [1, 0]))"
    using search_min_score_before_truncation
      [where ST = example_ST and s = example_loaded and ix = example_index
        and md = example_metadata and top_k = 5 and query = "''east''" and q = "[1, 0]"
        and metric = "''cosine''" and min_score = "Some (9 / 10)"]
      example_hyps
    by auto
  then show ?thesis
    by (simp add: example_hyps example_ranked filter_then_truncate_def clears_def
        hit_result_def example_rows)
qed

section \<open>Persisting is not atomic\<close>

text \<open>
  C3, as stated, fails: a persist of the new snapshot over an older one that is
  interrupted after its first write leaves the new index file beside the old metadata
  file; the previous snapshot is not intact.
\<close>

theorem interrupted_persist_breaks_snapshot:
  "interrupted_persist 1 example_index example_metadata old_fs =
     old_fs\<lparr>index_file := Some example_index\<rparr> \<and>
   index_file old_fs = Some old_index \<and>
   embeddings_file old_fs = Some old_metadata \<and>
   old_index \<noteq> example_index"
  by (simp add: interrupted_persist_def persist_ops_def old_fs_def old_index_def
      example_index_def)

text \<open>
  C3 (as the code has it): a persist writes the index file and then the metadata file,
  each straight to its final path, with no temporary file and no rename. Interrupted
  before the first write it leaves the files as they were; interrupted between the two
  writes it leaves the new index file beside the previous metadata file; after both
  writes the new snapshot is on disk. The files a successful build leaves are those of
  the complete persist of its index and metadata.
\<close>

theorem persist_writes_in_place:
  "interrupted_persist 0 ix df f = f \<and>
   interrupted_persist 1 ix df f = f\<lparr>index_file := Some ix\<rparr> \<and>
   interrupted_persist (Suc (Suc k)) ix df f =
     f\<lparr>index_file := Some ix, embeddings_file := Some df\<rparr> \<and>
   (build_index ST mn bs force_rebuild (s, f) = (Inr r, s', f') \<and>
    (force_rebuild \<or> index_file f = None) \<longrightarrow>
      (\<exists>ix' df'. index s' = Some ix' \<and> metadata s' = Some df' \<and>
                 f' = interrupted_persist 2 ix' df' f))"
proof -
  have "build_index ST mn bs force_rebuild (s, f) = (Inr r, s', f') \<and>
    (force_rebuild \<or> index_file f = None) \<longrightarrow>
      (\<exists>ix' df'. index s' = Some ix' \<and> metadata s' = Some df' \<and>
                 f' = interrupted_persist 2 ix' df' f)"
  proof
    assume a: "build_index ST mn bs force_rebuild (s, f) = (Inr r, s', f') \<and>
      (force_rebuild \<or> index_file f = None)"
    then have nl: "\<not> (index_file f \<noteq> None \<and> \<not> force_rebuild)" by auto
    from a have "build_index ST mn bs force_rebuild (s, f) = (Inr r, s', f')" by simp
    then show "\<exists>ix' df'. index s' = Some ix' \<and> metadata s' = Some df' \<and>
                 f' = interrupted_persist 2 ix' df' f"
      using nl
      apply (simp only: build_index_def Let_def fst_conv snd_conv if_False)
      apply (simp split: option.splits if_splits add: interrupted_persist_def persist_ops_def)
      apply auto
      done
  qed
  then show ?thesis
    by (simp add: interrupted_persist_def persist_ops_def)
qed

theorem persist_writes_in_place_witness:
  "build_index example_ST None None True (example_service, old_fs) =
     (Inr (6, 6), example_loaded,
      old_fs\<lparr>index_file := Some example_index, embeddings_file := Some example_metadata\<rparr>) \<and>
   (\<exists>ix' df'. index example_loaded = Some ix' \<and> metadata example_loaded = Some df' \<and>
       old_fs\<lparr>index_file := Some example_index, embeddings_file := Some example_metadata\<rparr> =
         interrupted_persist 2 ix' df' old_fs)"
  using persist_writes_in_place
      [where ST = example_ST and mn = None and bs = None and force_rebuild = True
        and s = example_service and f = old_fs and r = "(6, 6)" and s' = example_loaded
        and f' = "old_fs\<lparr>index_file := Some example_index,
                         embeddings_file := Some example_metadata\<rparr>"]
    example_rebuild
  by simp

section \<open>Loading: missing files and row counts\<close>

text \<open>
  C4, as stated, fails: a snapshot whose index holds six vectors and whose metadata
  holds one row is loaded without any error.
\<close>

theorem load_index_accepts_count_mismatch:
  "load_index (example_service, old_fs\<lparr>index_file := Some example_index\<rparr>) =
     (Inr (), example_service\<lparr>index := Some example_index, metadata := Some old_metadata\<rparr>)
   \<and> ntotal example_index = 6 \<and> length (rows old_metadata) = 1"
  by (simp add: load_index_def old_fs_def ntotal_def example_index_def old_metadata_def)

text \<open>
  C4 (as the code has it): a load fails with \<^verbatim>\<open>FileNotFoundError\<close> naming the index
  when the vector file is absent, and with \<^verbatim>\<open>FileNotFoundError\<close> naming the metadata
  when only the companion metadata file is absent (one exception type, told apart by
  its message); when both files exist the load succeeds and the loaded state holds the
  two files' contents, whatever the vector count and the metadata row count are.
\<close>

theorem load_index_outcomes:
  "(index_file f = None \<longrightarrow>
      fst (load_index (s, f)) = Inl (FileNotFoundError ''Index not found'')) \<and>
   (index_file f = Some ix \<and> embeddings_file f = None \<longrightarrow>
      fst (load_index (s, f)) = Inl (FileNotFoundError ''Embeddings metadata not found'')) \<and>
   (index_file f = Some ix \<and> embeddings_file f = Some md \<longrightarrow>
      load_index (s, f) = (Inr (), s\<lparr>index := Some ix, metadata := Some md\<rparr>))"
  by (simp add: load_index_def Let_def)

theorem load_index_outcomes_witness:
  "fst (load_index (example_service, example_fs)) =
     Inl (FileNotFoundError ''Index not found'') \<and>
   fst (load_index (example_service, old_fs\<lparr>embeddings_file := None\<rparr>)) =
     Inl (FileNotFoundError ''Embeddings metadata not found'') \<and>
   load_index (example_service, old_fs) =
     (Inr (), example_service\<lparr>index := Some old_index, metadata := Some old_metadata\<rparr>)"
  using load_index_outcomes [where f = example_fs and s = example_service]
    load_index_outcomes [where f = "old_fs\<lparr>embeddings_file := None\<rparr>" and ix = old_index
      and s = example_service]
    load_index_outcomes [where f = old_fs and ix = old_index and md = old_metadata
      and s = example_service]
  by (simp add: example_fs_def old_fs_def)

section \<open>Running the transcript fetch twice\<close>

text \<open>
  C5 on the code: with three collected videos of which \<open>b\<close> is permanently
  unavailable, the first run returns \<open>(2, 1)\<close> after one call per video and writes the
  transcripts file; a second run without \<^verbatim>\<open>force_refresh\<close> reads the videos file
  again, which has no transcript column, and calls the provider for all three videos
  once more.
\<close>

theorem fetch_transcripts_rerun_fetches_all:
  "fetch_transcripts gone_api None False example_world = (Inr (2, 1), fetched_world) \<and>
   api_calls fetched_world = [''a'', ''b'', ''c''] \<and>
   transcripts_file (files fetched_world) = Some fetched_transcripts \<and>
   fst (fetch_transcripts gone_api None False fetched_world) = Inr (2, 1) \<and>
   api_calls (snd (fetch_transcripts gone_api None False fetched_world)) =
     [''a'', ''b'', ''c''] @ [''a'', ''b'', ''c'']"
  by (simp add: example_fetch example_refetch) (simp add: fetched_world_def)

section \<open>The metric argument\<close>




section \<open>Transient and permanent failures\<close>



section \<open>Score bounds\<close>

text \<open>
  C8 on the code: a search against the snapshot built above returns a result whose score
  is \<open>-1\<close>, the inner product of the normalised query with a stored vector pointing
  the opposite way; the score field of the response schema (\<^verbatim>\<open>ge=0, le=1\<close>) rejects
  it.
\<close>

theorem search_returns_negative_score:
  "search example_ST ''east'' 6 ''cosine'' None example_loaded =
     Inr [make_result (embedded ''v1'' ''east'' [1, 0]) 1,
          make_result (embedded ''v4'' ''eastnortheast'' [12 / 13, 5 / 13]) (12 / 13),
          make_result (embedded ''v2'' ''northeast'' [3 / 5, 4 / 5]) (3 / 5),
          make_result (embedded ''v3'' ''north'' [0, 1]) 0,
          make_result (embedded ''v5'' ''southwest'' [- (3 / 5), - (4 / 5)]) (- (3 / 5)),
          make_result (embedded ''v0'' ''west'' [- 1, 0]) (- 1)] \<and>
   r_score (make_result (embedded ''v0'' ''west'' [- 1, 0]) (- 1)) = - 1 \<and>
   \<not> score_field_ok (- 1)"
  using search_loaded' [where ST = example_ST and s = example_loaded and ix = example_index
        and md = example_metadata and top_k = 6 and query = "''east''"
        and metric = "''cosine''" and min_score = None]
  by (simp add: example_hyps example_ranked filter_then_truncate_def clears_def
        hit_result_def example_rows score_field_ok_def make_result_def)

section \<open>Building over an existing snapshot\<close>

text \<open>
  C9: when the index file and its metadata file exist and \<^verbatim>\<open>force_rebuild\<close> is false,
  \<open>build_index\<close> succeeds with the row count and the vector count of the files and
  leaves the files as they are; and whenever a call with \<^verbatim>\<open>force_rebuild=false\<close>
  succeeds, a second such call succeeds with the same pair and the same files.
\<close>

theorem build_index_existing_snapshot_noop:
  "(index_file f = Some ix \<and> embeddings_file f = Some md \<longrightarrow>
      build_index ST mn bs False (s, f) =
        (Inr (length (rows md), ntotal ix), s\<lparr>index := Some ix, metadata := Some md\<rparr>, f)) \<and>
   (build_index ST mn bs False (s, f) = (Inr r, s', f') \<longrightarrow>
      (\<exists>s''. build_index ST mn' bs' False (s', f') = (Inr r, s'', f')))"
proof (intro conjI impI)
  assume "index_file f = Some ix \<and> embeddings_file f = Some md"
  then show "build_index ST mn bs False (s, f) =
      (Inr (length (rows md), ntotal ix), s\<lparr>index := Some ix, metadata := Some md\<rparr>, f)"
    by (simp add: build_index_def load_index_def Let_def)
next
  assume "build_index ST mn bs False (s, f) = (Inr r, s', f')"
  then show "\<exists>s''. build_index ST mn' bs' False (s', f') = (Inr r, s'', f')"
    by (simp add: build_index_def load_index_def Let_def run_persist_ops
        split: option.splits if_splits)
      (auto simp: ntotal_def add_def IndexFlatIP_def)
qed

theorem build_index_existing_snapshot_noop_witness:
  "build_index example_ST None None False (example_service, old_fs) =
     (Inr (1, 1), example_service\<lparr>index := Some old_index, metadata := Some old_metadata\<rparr>,
      old_fs) \<and>
   (\<exists>s''. build_index example_ST None None False (example_loaded, example_snapshot_fs) =
          (Inr (6, 6), s'', example_snapshot_fs))"
  using build_index_existing_snapshot_noop
      [of old_fs old_index old_metadata example_ST None None example_service]
    build_index_existing_snapshot_noop
      [of example_fs example_index example_metadata example_ST None None example_service
          "(6, 6)" example_loaded example_snapshot_fs None None]
    example_build [of False]
  by (simp add: old_fs_def old_metadata_def old_index_def ntotal_def)

section \<open>Asking for more results than there are vectors\<close>

text \<open>
  C10, as stated, fails: with six stored vectors, \<^verbatim>\<open>top_k = 10\<close> and a \<^verbatim>\<open>min_score\<close>
  that two of them clear, the search returns two results, not six.
\<close>

theorem search_fewer_than_stored:
  "search example_ST ''east'' 10 ''cosine'' (Some (9 / 10)) example_loaded =
     Inr [make_result (embedded ''v1'' ''east'' [1, 0]) 1,
          make_result (embedded ''v4'' ''eastnortheast'' [12 / 13, 5 / 13]) (12 / 13)] \<and>
   ntotal example_index = 6"
  using search_loaded' [where ST = example_ST and s = example_loaded and ix = example_index
        and md = example_metadata and top_k = 10 and query = "''east''"
        and metric = "''cosine''" and min_score = "Some (9 / 10)"]
  by (simp add: example_hyps example_ranked filter_then_truncate_def clears_def
        hit_result_def example_rows)
    (simp add: example_index_def ntotal_def)

text \<open>
  C10 (as the code has it): on a loaded flat index of either kind the repository
  writes (inner-product or L2) that has a metadata row for every vector, a search with
  \<^verbatim>\<open>top_k\<close> greater than the number \<open>n\<close> of stored vectors and a query of the index's
  dimension succeeds; without \<^verbatim>\<open>min_score\<close> it returns exactly \<open>n\<close> results, one for
  each stored vector in rank order; with \<^verbatim>\<open>min_score\<close> it returns those of them whose
  score (the distance the index reports) clears it; every result comes from a stored
  vector and its metadata row, so no unfilled slot is surfaced.
\<close>

theorem search_beyond_stored:
  assumes "index s = Some ix" and "metadata s = Some md"
    and "length (ST (model_name s) query) = idx_d ix"
    and "ntotal ix \<le> length (rows md)"
    and "int (ntotal ix) < top_k"
    and "q = normalize_L2 (ST (model_name s) query)"
  shows "\<exists>rs every.
           search ST query top_k metric min_score s = Inr rs \<and>
           search ST query top_k metric None s = Inr every \<and>
           every = map (hit_result (rows md)) (ranked ix q) \<and>
           length every = ntotal ix \<and>
           rs = filter (\<lambda>r. clears min_score (r_score r)) every \<and>
           length rs =
             length (filter (\<lambda>v. clears min_score (distance_to (metric_type ix) q v))
                       (vectors ix)) \<and>
           (\<forall>r \<in> set rs. \<exists>i < ntotal ix.
               r = make_result (rows md ! i) (distance_to (metric_type ix) q (vectors ix ! i)))"
proof -
  have k: "0 < top_k" using assms(5) by simp
  have full: "take (nat top_k) (ranked ix q) = ranked ix q"
    using assms(5) by (simp add: length_ranked)
  let ?every = "map (hit_result (rows md)) (ranked ix q)"
  let ?rs = "filter (\<lambda>r. clears min_score (r_score r)) ?every"
  have s0: "\<And>ms. search ST query top_k metric ms s =
      Inr (map (hit_result (rows md)) (filter (\<lambda>h. clears ms (fst h)) (ranked ix q)))"
    using assms(1-4) k search_loaded [where ST = ST and s = s and ix = ix and md = md
        and top_k = top_k and query = query and metric = metric]
    by (simp add: assms(6) full [unfolded assms(6)])
  have s1: "search ST query top_k metric min_score s = Inr ?rs"
    by (simp add: s0 filter_map comp_def r_score_hit)
  have s2: "search ST query top_k metric None s = Inr ?every"
    by (simp add: s0 clears_None)
  have len: "length ?rs =
      length (filter (\<lambda>v. clears min_score (distance_to (metric_type ix) q v)) (vectors ix))"
    using length_filter_ranked [of "clears min_score" ix q]
    by (simp add: filter_map comp_def r_score_hit)
  have el: "\<forall>r \<in> set ?rs. \<exists>i < ntotal ix.
      r = make_result (rows md ! i) (distance_to (metric_type ix) q (vectors ix ! i))"
  proof
    fix r assume "r \<in> set ?rs"
    then obtain h where "h \<in> set (ranked ix q)" "r = hit_result (rows md) h" by auto
    moreover then obtain i where "i < ntotal ix"
      "h = (distance_to (metric_type ix) q (vectors ix ! i), int i)"
      using set_ranked by blast
    ultimately show "\<exists>i < ntotal ix.
        r = make_result (rows md ! i) (distance_to (metric_type ix) q (vectors ix ! i))"
      by (auto simp: hit_result_def)
  qed
  from s1 s2 len el show ?thesis by (simp add: length_ranked)
qed

theorem search_beyond_stored_witness:
  "index example_loaded = Some example_index \<and>
   metadata example_loaded = Some example_metadata \<and>
   length (example_ST (model_name example_loaded) ''east'') = idx_d example_index \<and>
   ntotal example_index \<le> length (rows example_metadata) \<and>
   int (ntotal example_index) < 10 \<and>
   (\<exists>every. search example_ST ''east'' 10 ''cosine'' None example_loaded = Inr every \<and>
            length every = 6) \<and>
   index l2_loaded = Some l2_index \<and>
   metadata l2_loaded = Some example_metadata \<and>
   length (example_ST (model_name l2_loaded) ''east'') = idx_d l2_index \<and>
   ntotal l2_index \<le> length (rows example_metadata) \<and>
   int (ntotal l2_index) < 10 \<and>
   (\<exists>rs. search example_ST ''east'' 10 ''cosine'' (Some (9 / 10)) l2_loaded = Inr rs \<and>
          length rs = 3)"
proof -
  have n: "ntotal example_index = 6" "ntotal l2_index = 6"
    by (simp_all add: l2_index_def example_index_def ntotal_def)
  have "\<exists>rs every.
      search example_ST ''east'' 10 ''cosine'' None example_loaded = Inr rs \<and>
      search example_ST ''east'' 10 ''cosine'' None example_loaded = Inr every \<and>
      every = map (hit_result (rows example_metadata)) (ranked example_index [1, 0]) \<and>
      length every = ntotal example_index \<and>
      rs = filter (\<lambda>r. clears None (r_score r)) every \<and>
      length rs = length (filter (\<lambda>v. clears None
          (distance_to (metric_type example_index) [1, 0] v)) (vectors example_index)) \<and>
      (\<forall>r \<in> set rs. \<exists>i < ntotal example_index.
          r = make_result (rows example_metadata ! i)
                (distance_to (metric_type example_index) [1, 0] (vectors example_index ! i)))"
    by (rule search_beyond_stored
      [where ST = example_ST and s = example_loaded and ix = example_index
        and md = example_metadata and top_k = 10 and query = "''east''" and q = "[1, 0]"
        and metric = "''cosine''" and min_score = None])
      (simp_all add: example_hyps n example_metadata_def)
  then obtain every where e: "search example_ST ''east'' 10 ''cosine'' None example_loaded = Inr every"
    "length every = ntotal example_index"
    by blast
  have "\<exists>rs every.
      search example_ST ''east'' 10 ''cosine'' (Some (9 / 10)) l2_loaded = Inr rs \<and>
      search example_ST ''east'' 10 ''cosine'' None l2_loaded = Inr every \<and>
      every = map (hit_result (rows example_metadata)) (ranked l2_index [1, 0]) \<and>
      length every = ntotal l2_index \<and>
      rs = filter (\<lambda>r. clears (Some (9 / 10)) (r_score r)) every \<and>
      length rs = length (filter (\<lambda>v. clears (Some (9 / 10))
          (distance_to (metric_type l2_index) [1, 0] v)) (vectors l2_index)) \<and>
      (\<forall>r \<in> set rs. \<exists>i < ntotal l2_index.
          r = make_result (rows example_metadata ! i)
                (distance_to (metric_type l2_index) [1, 0] (vectors l2_index ! i)))"
    by (rule search_beyond_stored
      [where ST = example_ST and s = l2_loaded and ix = l2_index
        and md = example_metadata and top_k = 10 and query = "''east''" and q = "[1, 0]"
        and metric = "''cosine''" and min_score = "Some (9 / 10)"])
      (simp_all add: l2_hyps n example_metadata_def)
  then obtain rs where r: "search example_ST ''east'' 10 ''cosine'' (Some (9 / 10)) l2_loaded = Inr rs"
    "length rs = length (filter (\<lambda>v. clears (Some (9 / 10))
          (distance_to (metric_type l2_index) [1, 0] v)) (vectors l2_index))"
    by blast
  have "length (filter (\<lambda>v. clears (Some (9 / 10))
          (distance_to (metric_type l2_index) [1, 0] v)) (vectors l2_index)) = 3"
    by (simp add: l2_index_def example_index_def clears_def distance_to_def l2sqr_def)
  with e r show ?thesis
    by (simp add: example_hyps l2_hyps n example_metadata_def)
qed

end
